theory Spec2Isabelle
  imports Main "HOL-Library.Sublist"
begin

section \<open>Python strings\<close>

text \<open>
  Python \<open>str\<close> values are modelled as \<open>string\<close>. The helpers below are the string
  operations the scripts use: \<open>str.replace\<close>, the \<open>in\<close> test on strings, \<open>str.lower\<close>
  (on ASCII letters), \<open>str.endswith\<close> with a tuple of suffixes, and the decimal text of
  an integer as an f-string prints it.
\<close>

function replace :: "string \<Rightarrow> string \<Rightarrow> string \<Rightarrow> string" where
  "replace old new [] = (if old = [] then new else [])"
| "replace old new (c # cs) =
     (if old = [] then new @ concat (map (\<lambda>x. x # new) (c # cs))
      else if prefix old (c # cs) then new @ replace old new (drop (length old) (c # cs))
      else c # replace old new cs)"
  by pat_completeness auto
termination
  by (relation "measure (\<lambda>(old, new, s). length s)") auto

fun contains :: "string \<Rightarrow> string \<Rightarrow> bool" where
  "contains sub [] = (sub = [])"
| "contains sub (c # cs) = (prefix sub (c # cs) \<or> contains sub cs)"

definition lower_char :: "char \<Rightarrow> char" where
  "lower_char c =
     (let n = (of_char c :: nat) in if 65 \<le> n \<and> n \<le> 90 then char_of (n + 32) else c)"

definition lower :: "string \<Rightarrow> string" where
  "lower s = map lower_char s"

definition endswith :: "string \<Rightarrow> string list \<Rightarrow> bool" where
  "endswith s ends = list_ex (\<lambda>x. suffix x s) ends"

function str_nat :: "nat \<Rightarrow> string" where
  "str_nat n =
     (if n < 10 then [char_of (48 + n)] else str_nat (n div 10) @ [char_of (48 + n mod 10)])"
  by pat_completeness auto
termination
  by (relation "measure id") auto

declare str_nat.simps [simp del]

definition str_int :: "int \<Rightarrow> string" where
  "str_int i = (if i < 0 then CHR ''-'' # str_nat (nat (- i)) else str_nat (nat i))"

text \<open>\<open>sq s\<close> is \<open>s\<close> between single quotes, as \<open>'{s}'\<close> in an f-string.\<close>

definition sq :: "string \<Rightarrow> string" where
  "sq s = CHR 0x27 # s @ [CHR 0x27]"

text \<open>An optional string formatted by an f-string: \<open>None\<close> prints as the word None.\<close>

definition py_str :: "string option \<Rightarrow> string" where
  "py_str v = (case v of None \<Rightarrow> ''None'' | Some s \<Rightarrow> s)"

text \<open>Truth value of an optional string: \<open>None\<close> and the empty string are false.\<close>

definition truthy :: "string option \<Rightarrow> bool" where
  "truthy v = (case v of None \<Rightarrow> False | Some s \<Rightarrow> s \<noteq> [])"

section \<open>Configuration, requests and responses\<close>

text \<open>
  The module-level settings of \<open>confluence_automation.py\<close>, as read from the environment
  when the module is loaded. \<open>CONFLUENCE_BASE_URL\<close> and \<open>API_TOKEN\<close> default to the empty
  string; the other three are \<open>None\<close> when the variable is not set.
\<close>

record config =
  CONFLUENCE_BASE_URL :: string
  API_TOKEN :: string
  SPACE_KEY :: "string option"
  PARENT_PAGE_TITLE :: "string option"
  CERT_PATH :: "string option"

definition COMMON_HEADERS :: "config \<Rightarrow> (string \<times> string) list" where
  "COMMON_HEADERS cfg = [(''Authorization'', ''Bearer '' @ API_TOKEN cfg)]"

text \<open>\<open>CERT_PATH if CERT_PATH else False\<close>: \<open>None\<close> stands for \<open>False\<close>.\<close>

definition verify_ssl :: "config \<Rightarrow> string option" where
  "verify_ssl cfg = (if truthy (CERT_PATH cfg) then CERT_PATH cfg else None)"

datatype http_method = GET | POST | PUT

record ancestor =
  a_id :: string

text \<open>The JSON payload of a page write; \<open>p_id\<close> and \<open>p_version\<close> are absent in a create.\<close>

record page_payload =
  p_id :: "string option"
  p_type :: string
  p_title :: string
  p_ancestors :: "ancestor list"
  p_space_key :: "string option"
  p_body_value :: string
  p_body_representation :: string
  p_version :: "int option"

text \<open>\<open>Files filename file_bytes mime_type\<close> is the multipart part \<open>{"file": (...)}\<close>.\<close>

datatype payload = NoBody | Json page_payload | Files string string string

record request =
  r_method :: http_method
  url :: string
  params :: "(string \<times> string option) list"
  headers :: "(string \<times> string) list"
  body :: payload
  verify :: "string option"

text \<open>
  A JSON body as far as the scripts read it: each key they read, present or absent.
  \<open>c_version_number\<close> is \<open>result["version"]["number"]\<close> and \<open>j_links_webui\<close> is
  \<open>json["_links"]["webui"]\<close>. Identifiers are strings and counts are integers, as the
  content API sends them.
\<close>

record content =
  c_id :: string
  c_ancestors :: "ancestor list option"
  c_version_number :: "int option"

record json =
  j_size :: "int option"
  j_results :: "content list option"
  j_links_webui :: "string option"

text \<open>
  The exceptions that can reach a caller. \<open>RequestException\<close> is a failure of the HTTP
  transport and \<open>OSError\<close> a failure of the file system; both carry the message of the
  library that raised them.
\<close>

datatype error =
    ValueError string
  | Exception string
  | JSONDecodeError string
  | KeyError string
  | IndexError string
  | RequestException string
  | OSError string

fun str_error :: "error \<Rightarrow> string" where
  "str_error (ValueError m) = m"
| "str_error (Exception m) = m"
| "str_error (JSONDecodeError m) = m"
| "str_error (KeyError k) = sq k"
| "str_error (IndexError m) = m"
| "str_error (RequestException m) = m"
| "str_error (OSError m) = m"

text \<open>
  A response: \<open>response.status_code\<close>, \<open>response.text\<close> and the outcome of
  \<open>response.json()\<close>, which is the decoder's message when the body is not JSON.
\<close>

record response =
  status_code :: int
  resp_text :: string
  resp_json :: "string + json"

text \<open>
  The remote platform is a parameter: a step function from a request and the platform's
  state to the answer (a response, or the exception the transport raises) and the next
  state. The world threaded through the scripts holds that state, the requests sent so
  far and the lines printed so far.
\<close>

type_synonym 's server = "request \<Rightarrow> 's \<Rightarrow> (error + response) \<times> 's"

record 's world =
  server_state :: 's
  sent :: "request list"
  printed :: "string list"

definition print :: "string \<Rightarrow> 's world \<Rightarrow> 's world" where
  "print line w = w\<lparr>printed := printed w @ [line]\<rparr>"

definition send :: "'s server \<Rightarrow> request \<Rightarrow> 's world \<Rightarrow> (error + response) \<times> 's world" where
  "send srv rq w =
     (case srv rq (server_state w) of
        (answer, s) \<Rightarrow> (answer, w\<lparr>server_state := s, sent := sent w @ [rq]\<rparr>))"

text \<open>The requests issued between two worlds.\<close>

definition issued :: "'s world \<Rightarrow> 's world \<Rightarrow> request list" where
  "issued w w' = drop (length (sent w)) (sent w')"

section \<open>confluence\_automation.py\<close>

subsection \<open>get\_page\_id\_by\_title\<close>

definition lookup_request :: "config \<Rightarrow> string option \<Rightarrow> request" where
  "lookup_request cfg title =
     \<lparr>r_method = GET,
      url = CONFLUENCE_BASE_URL cfg @ ''/rest/api/content'',
      params = [(''title'', title), (''spaceKey'', SPACE_KEY cfg), (''expand'', Some ''ancestors'')],
      headers = COMMON_HEADERS cfg,
      body = NoBody,
      verify = verify_ssl cfg\<rparr>"

definition not_found_message :: "config \<Rightarrow> string option \<Rightarrow> string" where
  "not_found_message cfg title =
     ''No page found with title '' @ sq (py_str title) @ '' in space '' @ sq (py_str (SPACE_KEY cfg))"

definition get_page_id_by_title ::
  "config \<Rightarrow> 's server \<Rightarrow> string option \<Rightarrow> 's world \<Rightarrow> (error + string) \<times> 's world" where
  "get_page_id_by_title cfg srv title w =
     (if CONFLUENCE_BASE_URL cfg = [] \<or> \<not> truthy (SPACE_KEY cfg)
      then (Inl (ValueError ''Missing configuration: CONFLUENCE_BASE_URL or SPACE_KEY not set.''), w)
      else
        (case send srv (lookup_request cfg title) w of
           (Inl e, w1) \<Rightarrow> (Inl e, w1)
         | (Inr response, w1) \<Rightarrow>
             if status_code response \<noteq> 200
             then (Inl (Exception (''Failed to fetch page ID: '' @ str_int (status_code response)
                                   @ '' '' @ resp_text response)), w1)
             else
               (case resp_json response of
                  Inl m \<Rightarrow>
                    (Inl (JSONDecodeError m),
                     print (''DEBUG: Failed to decode JSON. Response text preview:\<newline>''
                            @ take 500 (resp_text response) @ ''...'') w1)
                | Inr data \<Rightarrow>
                    (case j_size data of
                       None \<Rightarrow> (Inl (KeyError ''size''), w1)
                     | Some n \<Rightarrow>
                         if n = 0 then (Inl (Exception (not_found_message cfg title)), w1)
                         else
                           (case j_results data of
                              None \<Rightarrow> (Inl (KeyError ''results''), w1)
                            | Some [] \<Rightarrow> (Inl (IndexError ''list index out of range''), w1)
                            | Some (first # _) \<Rightarrow> (Inr (c_id first), w1))))))"

subsection \<open>new\_page\<close>

definition content_url :: "config \<Rightarrow> string" where
  "content_url cfg = CONFLUENCE_BASE_URL cfg @ ''/rest/api/content/''"

definition json_headers :: "config \<Rightarrow> (string \<times> string) list" where
  "json_headers cfg = (''Content-Type'', ''application/json'') # COMMON_HEADERS cfg"

definition existence_request :: "config \<Rightarrow> string \<Rightarrow> request" where
  "existence_request cfg title =
     \<lparr>r_method = GET,
      url = butlast (content_url cfg),
      params = [(''title'', Some title), (''spaceKey'', SPACE_KEY cfg),
                (''expand'', Some ''ancestors,version'')],
      headers = COMMON_HEADERS cfg,
      body = NoBody,
      verify = verify_ssl cfg\<rparr>"

definition update_request ::
  "config \<Rightarrow> string \<Rightarrow> string \<Rightarrow> string \<Rightarrow> string option \<Rightarrow> int \<Rightarrow> request" where
  "update_request cfg title content parent_id page_id version =
     \<lparr>r_method = PUT,
      url = content_url cfg @ py_str page_id,
      params = [],
      headers = json_headers cfg,
      body = Json \<lparr>p_id = page_id, p_type = ''page'', p_title = title,
                   p_ancestors = [\<lparr>a_id = parent_id\<rparr>], p_space_key = SPACE_KEY cfg,
                   p_body_value = content, p_body_representation = ''storage'',
                   p_version = Some version\<rparr>,
      verify = verify_ssl cfg\<rparr>"

definition create_request :: "config \<Rightarrow> string \<Rightarrow> string \<Rightarrow> string \<Rightarrow> request" where
  "create_request cfg title content parent_id =
     \<lparr>r_method = POST,
      url = content_url cfg,
      params = [],
      headers = json_headers cfg,
      body = Json \<lparr>p_id = None, p_type = ''page'', p_title = title,
                   p_ancestors = [\<lparr>a_id = parent_id\<rparr>], p_space_key = SPACE_KEY cfg,
                   p_body_value = content, p_body_representation = ''storage'',
                   p_version = None\<rparr>,
      verify = verify_ssl cfg\<rparr>"

text \<open>
  The loop over the candidates of the existence query. It returns the three variables
  \<open>(page_exists, page_id, version)\<close> as they stand after the loop, or the \<open>KeyError\<close> of
  \<open>result["version"]["number"]\<close>.
\<close>

fun find_existing :: "string \<Rightarrow> content list \<Rightarrow> error + (bool \<times> string option \<times> int)" where
  "find_existing parent_id [] = Inr (False, None, 1)"
| "find_existing parent_id (result # rest) =
     (let ancestors = (case c_ancestors result of None \<Rightarrow> [] | Some a \<Rightarrow> a) in
      if ancestors \<noteq> [] \<and> a_id (last ancestors) = parent_id
      then (case c_version_number result of
              None \<Rightarrow> Inl (KeyError ''version'')
            | Some number \<Rightarrow> Inr (True, Some (c_id result), number + 1))
      else find_existing parent_id rest)"

text \<open>\<open>data.get("results", [])\<close>.\<close>

definition get_results :: "json \<Rightarrow> content list" where
  "get_results data = (case j_results data of None \<Rightarrow> [] | Some rs \<Rightarrow> rs)"

text \<open>
  The existence check on the answer to the title query: the three variables after the
  \<open>if resp.status_code == 200\<close> block, or the exception raised inside it.
\<close>

definition existing :: "response \<Rightarrow> string \<Rightarrow> error + (bool \<times> string option \<times> int)" where
  "existing resp parent_id =
     (if status_code resp = 200
      then (case resp_json resp of
              Inl m \<Rightarrow> Inl (JSONDecodeError m)
            | Inr data \<Rightarrow> find_existing parent_id (get_results data))
      else Inr (False, None, 1))"

text \<open>\<open>response.json()["_links"]["webui"]\<close>.\<close>

definition webui :: "response \<Rightarrow> error + string" where
  "webui response =
     (case resp_json response of
        Inl m \<Rightarrow> Inl (JSONDecodeError m)
      | Inr j \<Rightarrow> (case j_links_webui j of None \<Rightarrow> Inl (KeyError ''_links'') | Some l \<Rightarrow> Inr l))"

definition new_page ::
  "config \<Rightarrow> 's server \<Rightarrow> string \<Rightarrow> string \<Rightarrow> string option \<Rightarrow> 's world
     \<Rightarrow> (error + unit) \<times> 's world" where
  "new_page cfg srv title content parent w =
     (case get_page_id_by_title cfg srv parent w of
        (Inl e, w1) \<Rightarrow>
          (Inr (), print (''Error finding parent page '' @ sq (py_str parent) @ '': '' @ str_error e) w1)
      | (Inr parent_id, w1) \<Rightarrow>
          (case send srv (existence_request cfg title) w1 of
             (Inl e, w2) \<Rightarrow> (Inl e, w2)
           | (Inr resp, w2) \<Rightarrow>
               (case existing resp parent_id of
                  Inl e \<Rightarrow> (Inl e, w2)
                | Inr (page_exists, page_id, version) \<Rightarrow>
                    if page_exists
                    then
                      (case send srv (update_request cfg title content parent_id page_id version) w2 of
                         (Inl e, w3) \<Rightarrow> (Inl e, w3)
                       | (Inr response, w3) \<Rightarrow>
                           if status_code response = 200
                           then
                             (case webui response of
                                Inl e \<Rightarrow> (Inl e, print ''Page updated successfully!'' w3)
                              | Inr link \<Rightarrow>
                                  (Inr (),
                                   print (''URL: '' @ CONFLUENCE_BASE_URL cfg @ link)
                                     (print ''Page updated successfully!'' w3)))
                           else
                             (Inr (),
                              print (''Response: '' @ resp_text response)
                                (print (''Status Code: '' @ str_int (status_code response))
                                   (print ''Failed to update page'' w3))))
                    else
                      (case send srv (create_request cfg title content parent_id) w2 of
                         (Inl e, w3) \<Rightarrow> (Inl e, w3)
                       | (Inr response, w3) \<Rightarrow>
                           if status_code response = 200 \<or> status_code response = 201
                           then
                             (case webui response of
                                Inl e \<Rightarrow> (Inl e, print ''Page created successfully!'' w3)
                              | Inr link \<Rightarrow>
                                  (Inr (),
                                   print (''URL: '' @ CONFLUENCE_BASE_URL cfg @ link)
                                     (print ''Page created successfully!'' w3)))
                           else
                             (Inr (),
                              print (''Response: '' @ resp_text response)
                                (print (''Status Code: '' @ str_int (status_code response))
                                   (print ''Failed to create page'' w3)))))))"

subsection \<open>upload\_attachment\_to\_page\<close>

definition attachment_url :: "config \<Rightarrow> string \<Rightarrow> string" where
  "attachment_url cfg page_id =
     CONFLUENCE_BASE_URL cfg @ ''/rest/api/content/'' @ page_id @ ''/child/attachment''"

definition attachment_headers :: "config \<Rightarrow> (string \<times> string) list" where
  "attachment_headers cfg = (''X-Atlassian-Token'', ''no-check'') # COMMON_HEADERS cfg"

definition attach_request :: "config \<Rightarrow> string \<Rightarrow> string \<Rightarrow> string \<Rightarrow> string \<Rightarrow> request" where
  "attach_request cfg page_id filename file_bytes mime_type =
     \<lparr>r_method = POST,
      url = attachment_url cfg page_id,
      params = [],
      headers = attachment_headers cfg,
      body = Files filename file_bytes mime_type,
      verify = verify_ssl cfg\<rparr>"

definition att_request :: "config \<Rightarrow> string \<Rightarrow> string \<Rightarrow> request" where
  "att_request cfg page_id filename =
     \<lparr>r_method = GET,
      url = CONFLUENCE_BASE_URL cfg @ ''/rest/api/content/'' @ page_id
            @ ''/child/attachment?filename='' @ filename @ ''&expand=results'',
      params = [],
      headers = COMMON_HEADERS cfg,
      body = NoBody,
      verify = verify_ssl cfg\<rparr>"

definition data_request ::
  "config \<Rightarrow> string \<Rightarrow> string \<Rightarrow> string \<Rightarrow> string \<Rightarrow> string \<Rightarrow> request" where
  "data_request cfg page_id att_id filename file_bytes mime_type =
     \<lparr>r_method = POST,
      url = CONFLUENCE_BASE_URL cfg @ ''/rest/api/content/'' @ page_id
            @ ''/child/attachment/'' @ att_id @ ''/data'',
      params = [],
      headers = attachment_headers cfg,
      body = Files filename file_bytes mime_type,
      verify = verify_ssl cfg\<rparr>"

definition failed_to_find :: "response \<Rightarrow> error" where
  "failed_to_find att_resp =
     Exception (''Failed to find existing attachment to update: ''
                @ str_int (status_code att_resp) @ '' '' @ resp_text att_resp)"

text \<open>\<open>response.json()\<close>, returned to the caller.\<close>

definition json_of :: "response \<Rightarrow> error + json" where
  "json_of response =
     (case resp_json response of Inl m \<Rightarrow> Inl (JSONDecodeError m) | Inr j \<Rightarrow> Inr j)"

definition upload_attachment_to_page ::
  "config \<Rightarrow> 's server \<Rightarrow> string \<Rightarrow> string \<Rightarrow> string \<Rightarrow> string \<Rightarrow> 's world
     \<Rightarrow> (error + json) \<times> 's world" where
  "upload_attachment_to_page cfg srv page_id filename file_bytes mime_type w =
     (case send srv (attach_request cfg page_id filename file_bytes mime_type) w of
        (Inl e, w1) \<Rightarrow> (Inl e, w1)
      | (Inr response, w1) \<Rightarrow>
          if status_code response = 400 \<and> contains ''same file name'' (resp_text response)
          then
            (case send srv (att_request cfg page_id filename) w1 of
               (Inl e, w2) \<Rightarrow> (Inl e, w2)
             | (Inr att_resp, w2) \<Rightarrow>
                 if status_code att_resp = 200
                 then
                   (case resp_json att_resp of
                      Inl m \<Rightarrow> (Inl (JSONDecodeError m), w2)
                    | Inr j \<Rightarrow>
                        (case get_results j of
                           [] \<Rightarrow> (Inl (failed_to_find att_resp), w2)
                         | first # _ \<Rightarrow>
                             (case send srv (data_request cfg page_id (c_id first)
                                               filename file_bytes mime_type) w2 of
                                (Inl e, w3) \<Rightarrow> (Inl e, w3)
                              | (Inr update_resp, w3) \<Rightarrow>
                                  if status_code update_resp = 200 \<or> status_code update_resp = 201
                                  then (json_of update_resp, w3)
                                  else
                                    (Inl (Exception (''Failed to update attachment: ''
                                            @ str_int (status_code update_resp) @ '' ''
                                            @ resp_text update_resp)), w3))))
                 else (Inl (failed_to_find att_resp), w2))
          else if status_code response \<noteq> 200 \<and> status_code response \<noteq> 201
          then
            (Inl (Exception (''Failed to upload attachment: '' @ str_int (status_code response)
                             @ '' '' @ resp_text response)), w1)
          else (json_of response, w1))"

section \<open>The code-block markup\<close>

text \<open>
  Both upload scripts escape the end marker of a CDATA section in the source text and
  embed the result in the \<open>ac:plain-text-body\<close> element of the code macro.
\<close>

definition cdata_escape :: "string \<Rightarrow> string" where
  "cdata_escape s = replace '']]>'' '']]]]><![CDATA[>'' s"

definition plain_text_body :: "string \<Rightarrow> string" where
  "plain_text_body safe_content =
     ''<ac:plain-text-body><![CDATA['' @ safe_content @ '']]></ac:plain-text-body>''"

subsection \<open>upload\_ils.py\<close>

text \<open>The page body \<open>upload_skill_file\<close> builds from the file's name and text (step 2).\<close>

definition skill_safe_content :: "string \<Rightarrow> string" where
  "skill_safe_content file_content =
     cdata_escape (replace [CHR 0x0D, CHR 0x0A] [CHR 0x0A] file_content)"

text \<open>The f-string \<open>html_content\<close>, in three parts: up to the plain-text body, the body, the rest.\<close>

definition skill_html_head :: "string \<Rightarrow> string" where
  \<open>skill_html_head filename =
     ''\<newline>'' @
     ''    <p>This page documents the SKILL script <b>'' @ filename @ ''</b>.</p>\<newline>'' @
     ''    \<newline>'' @
     ''    <h3>File Attachment</h3>\<newline>'' @
     ''    <p>\<newline>'' @
     ''      <ac:link>\<newline>'' @
     ''        <ri:attachment ri:filename="'' @ filename @ ''" />\<newline>'' @
     ''        <ac:plain-text-link-body><![CDATA[Download '' @ filename @
     '']]></ac:plain-text-link-body>\<newline>'' @
     ''      </ac:link>\<newline>'' @
     ''    </p>\<newline>'' @
     ''\<newline>'' @
     ''    <h3>Source Code</h3>\<newline>'' @
     ''    <ac:structured-macro ac:name="code">\<newline>'' @
     ''        <ac:parameter ac:name="language">lisp</ac:parameter> \<newline>'' @
     ''        <ac:parameter ac:name="linenumbers">true</ac:parameter>\<newline>'' @
     ''        ''\<close>

definition skill_html_tail :: string where
  "skill_html_tail =
     ''\<newline>'' @
     ''    </ac:structured-macro>\<newline>'' @
     ''    ''"

definition skill_html_content :: "string \<Rightarrow> string \<Rightarrow> string" where
  "skill_html_content filename file_content =
     skill_html_head filename @ plain_text_body (skill_safe_content file_content) @ skill_html_tail"

subsection \<open>upload\_ils\_folder.py: get\_content\_body\_for\_file\<close>

definition CODE_EXTENSIONS :: "string list" where
  "CODE_EXTENSIONS = [''.ils'', ''.il'']"

definition IMAGE_EXTENSIONS :: "string list" where
  "IMAGE_EXTENSIONS = [''.png'', ''.jpg'', ''.jpeg'', ''.gif'', ''.bmp'']"

definition OFFICE_EXTENSIONS :: "string list" where
  "OFFICE_EXTENSIONS = [''.pptx'', ''.ppt'', ''.xlsx'', ''.xls'', ''.docx'', ''.doc'']"

definition ALL_SUPPORTED_EXTENSIONS :: "string list" where
  "ALL_SUPPORTED_EXTENSIONS = CODE_EXTENSIONS @ IMAGE_EXTENSIONS @ OFFICE_EXTENSIONS"

text \<open>
  The operating system and the standard library, as the scripts call them:
  \<open>os.path.exists\<close>, \<open>os.listdir\<close>, \<open>os.path.join\<close>, \<open>os.path.basename\<close>,
  \<open>os.path.splitext\<close>, reading a file as text and as bytes, and the first component of
  \<open>mimetypes.guess_type\<close>.
\<close>

record fs =
  os_path_exists :: "string \<Rightarrow> bool"
  os_listdir :: "string \<Rightarrow> error + string list"
  os_path_join :: "string \<Rightarrow> string \<Rightarrow> string"
  os_path_basename :: "string \<Rightarrow> string"
  os_path_splitext :: "string \<Rightarrow> string \<times> string"
  read_text :: "string \<Rightarrow> error + string"
  read_bytes :: "string \<Rightarrow> error + string"
  guess_type :: "string \<Rightarrow> string option"

definition download_section :: "string \<Rightarrow> string" where
  \<open>download_section filename =
     ''\<newline>'' @
     ''        <h3>Download</h3>\<newline>'' @
     ''        <p>\<newline>'' @
     ''          <ac:link>\<newline>'' @
     ''            <ri:attachment ri:filename="'' @ filename @ ''" />\<newline>'' @
     ''            <ac:plain-text-link-body><![CDATA[Download '' @ filename @
     '']]></ac:plain-text-link-body>\<newline>'' @
     ''          </ac:link>\<newline>'' @
     ''        </p>\<newline>'' @
     ''    ''\<close>

text \<open>The f-string \<open>body\<close> of a code file, in three parts as above.\<close>

definition code_body_head :: "string \<Rightarrow> string" where
  \<open>code_body_head filename =
     ''\<newline>'' @
     ''            <p><b>Filename:</b> '' @ filename @ ''</p>\<newline>'' @
     ''            '' @ download_section filename @ ''\<newline>'' @
     ''            <h3>Source Code</h3>\<newline>'' @
     ''            <ac:structured-macro ac:name="code">\<newline>'' @
     ''                <ac:parameter ac:name="language">lisp</ac:parameter> \<newline>'' @
     ''                <ac:parameter ac:name="linenumbers">true</ac:parameter>\<newline>'' @
     ''                <ac:parameter ac:name="theme">Midnight</ac:parameter>\<newline>'' @
     ''                ''\<close>

definition code_body_tail :: string where
  "code_body_tail =
     ''\<newline>'' @
     ''            </ac:structured-macro>\<newline>'' @
     ''            ''"

definition code_body :: "string \<Rightarrow> string \<Rightarrow> string" where
  "code_body filename raw_content =
     code_body_head filename @ plain_text_body (cdata_escape raw_content) @ code_body_tail"

definition image_body :: "string \<Rightarrow> string" where
  \<open>image_body filename =
     ''\<newline>'' @
     ''        <p><b>Filename:</b> '' @ filename @ ''</p>\<newline>'' @
     ''        <p>\<newline>'' @
     ''            <ac:image>\<newline>'' @
     ''                <ri:attachment ri:filename="'' @ filename @ ''" />\<newline>'' @
     ''            </ac:image>\<newline>'' @
     ''        </p>\<newline>'' @
     ''        '' @ download_section filename @ ''\<newline>'' @
     ''        ''\<close>

definition office_body :: "string \<Rightarrow> string" where
  \<open>office_body filename =
     ''\<newline>'' @
     ''        <p><b>Filename:</b> '' @ filename @ ''</p>\<newline>'' @
     ''        '' @ download_section filename @ ''\<newline>'' @
     ''        <h3>Preview</h3>\<newline>'' @
     ''        <p>\<newline>'' @
     ''            <ac:structured-macro ac:name="view-file">\<newline>'' @
     ''                <ac:parameter ac:name="name"><ri:attachment ri:filename="'' @ filename @
     ''" /></ac:parameter>\<newline>'' @
     ''            </ac:structured-macro>\<newline>'' @
     ''        </p>\<newline>'' @
     ''        ''\<close>

definition get_content_body_for_file ::
  "fs \<Rightarrow> string \<Rightarrow> string \<Rightarrow> 's world \<Rightarrow> string \<times> 's world" where
  "get_content_body_for_file os filename file_path w =
     (let ext = lower (snd (os_path_splitext os filename)) in
      if ext \<in> set CODE_EXTENSIONS
      then
        (case read_text os file_path of
           Inr raw_content \<Rightarrow> (code_body filename raw_content, w)
         | Inl e \<Rightarrow>
             (''<p>Error reading file content.</p>'' @ download_section filename,
              print (''  Error reading text file content: '' @ str_error e) w))
      else if ext \<in> set IMAGE_EXTENSIONS then (image_body filename, w)
      else if ext \<in> set OFFICE_EXTENSIONS then (office_body filename, w)
      else (''<p><b>Filename:</b> '' @ filename @ ''</p>'' @ download_section filename, w))"

subsection \<open>upload\_ils\_folder.py: upload\_ils\_directory\<close>

definition section_content :: string where
  \<open>section_content =
     ''\<newline>'' @
     ''    <p>This section contains resources and libraries.</p>\<newline>'' @
     ''    <ac:structured-macro ac:name="children" />\<newline>'' @
     ''    ''\<close>

definition container_content :: "string \<Rightarrow> string" where
  \<open>container_content dirname =
     ''\<newline>'' @
     ''    <p>This page contains resources imported from directory: <b>'' @ dirname @
     ''</b></p>\<newline>'' @
     ''    <p><i>Structure created by automation script.</i></p>\<newline>'' @
     ''    \<newline>'' @
     ''    <h3>Contents</h3>\<newline>'' @
     ''    <ac:structured-macro ac:name="children" />\<newline>'' @
     ''    ''\<close>

text \<open>
  The body of the loop over the files. \<open>create_sub_page\<close> is the first \<open>try\<close> block with its
  handler and \<open>upload_sub_attachment\<close> the second; both handlers print the exception and
  fall through, so each returns a world and never an exception.
\<close>

definition create_sub_page ::
  "config \<Rightarrow> 's server \<Rightarrow> string \<Rightarrow> string \<Rightarrow> string \<Rightarrow> 's world \<Rightarrow> 's world" where
  "create_sub_page cfg srv page_title child_html directory_page_title w =
     (case new_page cfg srv page_title child_html (Some directory_page_title) w of
        (Inl e, w1) \<Rightarrow> print (''  Error creating page: '' @ str_error e) w1
      | (Inr _, w1) \<Rightarrow> w1)"

definition upload_sub_attachment ::
  "config \<Rightarrow> 's server \<Rightarrow> fs \<Rightarrow> string \<Rightarrow> string \<Rightarrow> string \<Rightarrow> 's world \<Rightarrow> 's world" where
  "upload_sub_attachment cfg srv os filename file_path page_title w =
     (case get_page_id_by_title cfg srv (Some page_title) w of
        (Inl e, w1) \<Rightarrow> print (''  Error uploading attachment: '' @ str_error e) w1
      | (Inr sub_page_id, w1) \<Rightarrow>
          if sub_page_id = []
          then print (''  Skipping attachment upload: Could not find page ID for ''
                      @ sq page_title) w1
          else
            (let mime_type = (case guess_type os file_path of
                                None \<Rightarrow> ''application/octet-stream''
                              | Some m \<Rightarrow> m)
             in case read_bytes os file_path of
                  Inl e \<Rightarrow> print (''  Error uploading attachment: '' @ str_error e) w1
                | Inr file_bytes \<Rightarrow>
                    (case upload_attachment_to_page cfg srv sub_page_id filename file_bytes
                            mime_type w1 of
                       (Inl e, w2) \<Rightarrow> print (''  Error uploading attachment: '' @ str_error e) w2
                     | (Inr _, w2) \<Rightarrow>
                         print (''  Attachment uploaded successfully ('' @ mime_type @ '').'') w2)))"

definition process_file ::
  "config \<Rightarrow> 's server \<Rightarrow> fs \<Rightarrow> string \<Rightarrow> string \<Rightarrow> string \<Rightarrow> 's world \<Rightarrow> 's world" where
  "process_file cfg srv os directory_path directory_page_title filename w =
     (let file_path = os_path_join os directory_path filename;
          page_title = filename;
          w1 = print (''\<newline>Processing file: '' @ filename) w
      in case get_content_body_for_file os filename file_path w1 of
           (child_html, w2) \<Rightarrow>
             upload_sub_attachment cfg srv os filename file_path page_title
               (create_sub_page cfg srv page_title child_html directory_page_title
                  (print (''  Creating sub-page '' @ sq page_title @ '' under ''
                          @ sq directory_page_title @ ''...'') w2)))"

fun process_files ::
  "config \<Rightarrow> 's server \<Rightarrow> fs \<Rightarrow> string \<Rightarrow> string \<Rightarrow> string list \<Rightarrow> 's world \<Rightarrow> 's world" where
  "process_files cfg srv os directory_path directory_page_title [] w = w"
| "process_files cfg srv os directory_path directory_page_title (filename # rest) w =
     process_files cfg srv os directory_path directory_page_title rest
       (process_file cfg srv os directory_path directory_page_title filename w)"

text \<open>The six lines printed before the first request.\<close>

definition banner ::
  "config \<Rightarrow> string \<Rightarrow> string \<Rightarrow> string \<Rightarrow> 's world \<Rightarrow> 's world" where
  "banner cfg directory_path directory_page_title section_parent_title w =
     print ''=================================\<newline>''
       (print (''Global Parent:   '' @ py_str (PARENT_PAGE_TITLE cfg))
          (print (''Directory Page:  '' @ directory_page_title)
             (print (''Section Parent:  '' @ section_parent_title)
                (print (''Source Dir:      '' @ directory_path)
                   (print ''=== Starting Directory Upload ==='' w)))))"

definition upload_ils_directory ::
  "config \<Rightarrow> 's server \<Rightarrow> fs \<Rightarrow> string \<Rightarrow> string \<Rightarrow> string \<Rightarrow> 's world
     \<Rightarrow> (error + unit) \<times> 's world" where
  "upload_ils_directory cfg srv os directory_path directory_page_title section_parent_title w =
     (if \<not> os_path_exists os directory_path
      then (Inr (), print (''Error: Directory not found at '' @ sq directory_path) w)
      else
        (case new_page cfg srv section_parent_title section_content (PARENT_PAGE_TITLE cfg)
                (print (''Ensuring section parent '' @ sq section_parent_title @ '' exists...'')
                   (banner cfg directory_path directory_page_title section_parent_title w)) of
           (Inl e, w1) \<Rightarrow>
             (Inr (), print (''CRITICAL ERROR creating section parent: '' @ str_error e) w1)
         | (Inr _, w1) \<Rightarrow>
             (case new_page cfg srv directory_page_title
                     (container_content (os_path_basename os directory_path))
                     (Some section_parent_title)
                     (print (''Creating directory page '' @ sq directory_page_title @ '' under ''
                             @ sq section_parent_title @ ''...'') w1) of
                (Inl e, w2) \<Rightarrow>
                  (Inr (), print (''CRITICAL ERROR creating directory page: '' @ str_error e) w2)
              | (Inr _, w2) \<Rightarrow>
                  (case os_listdir os directory_path of
                     Inl e \<Rightarrow> (Inl e, w2)
                   | Inr names \<Rightarrow>
                       (let files = filter (\<lambda>f. endswith (lower f) ALL_SUPPORTED_EXTENSIONS) names
                        in if files = []
                           then (Inr (), print ''No supported files found in this directory.'' w2)
                           else
                             (Inr (),
                              print ''\<newline>Batch upload complete.''
                                (process_files cfg srv os directory_path directory_page_title files
                                   (print (''Found '' @ str_nat (length files)
                                           @ '' supported files. Processing...'') w2))))))))"

section \<open>Reading a plain-text body\<close>

text \<open>
  What a storage-format parser reads from an \<open>ac:plain-text-body\<close> element, following
  XML: a CDATA section runs from its opening marker to the first end marker after it,
  and the character data of adjacent sections is concatenated. \<open>until_cdata_end\<close> splits
  at the first end marker; \<open>cdata_sections\<close> reads the adjacent sections at the head of
  a text and returns their character data with the text that follows them.
\<close>

fun until_cdata_end :: "string \<Rightarrow> (string \<times> string) option" where
  "until_cdata_end [] = None"
| "until_cdata_end (c # cs) =
     (if prefix '']]>'' (c # cs) then Some ([], drop 3 (c # cs))
      else map_option (\<lambda>(a, r). (c # a, r)) (until_cdata_end cs))"

lemma until_cdata_end_shorter:
  "until_cdata_end s = Some (a, r) \<Longrightarrow> length r < length s"
  by (induction s arbitrary: a) (auto split: if_splits)

function cdata_sections :: "string \<Rightarrow> (string \<times> string) option" where
  "cdata_sections s =
     (if prefix ''<![CDATA['' s
      then (case until_cdata_end (drop 9 s) of
              None \<Rightarrow> None
            | Some (a, r) \<Rightarrow> map_option (\<lambda>(b, t). (a @ b, t)) (cdata_sections r))
      else Some ([], s))"
  by pat_completeness auto
termination
proof (relation "measure length")
  show "wf (measure length)" by simp
next
  fix s :: string and x2 a r
  assume "until_cdata_end (drop 9 s) = Some x2" "(a, r) = x2"
  then have "length r < length (drop 9 s)"
    using until_cdata_end_shorter by metis
  then show "(r, s) \<in> measure length" by simp
qed

declare cdata_sections.simps [simp del]

text \<open>The character data read from just after an opening marker.\<close>

definition cdata_from :: "string \<Rightarrow> (string \<times> string) option" where
  "cdata_from x =
     (case until_cdata_end x of
        None \<Rightarrow> None
      | Some (a, r) \<Rightarrow> map_option (\<lambda>(b, t). (a @ b, t)) (cdata_sections r))"

definition plain_text_body_text :: "string \<Rightarrow> string option" where
  "plain_text_body_text s =
     (if prefix ''<ac:plain-text-body>'' s
      then (case cdata_sections (drop 20 s) of
              None \<Rightarrow> None
            | Some (a, r) \<Rightarrow> if prefix ''</ac:plain-text-body>'' r then Some a else None)
      else None)"

section \<open>Notions used in the statements\<close>

text \<open>A candidate of the title query whose last ancestor is the given parent.\<close>

definition under_parent :: "string \<Rightarrow> content \<Rightarrow> bool" where
  "under_parent parent_id r =
     (case c_ancestors r of None \<Rightarrow> False | Some a \<Rightarrow> a \<noteq> [] \<and> a_id (last a) = parent_id)"





section \<open>A scripted platform and sample data\<close>

text \<open>
  A platform that answers the requests it receives with a prepared list of answers, in
  order, and fails the transport once the list is used up; a sample configuration; and
  sample responses.
\<close>

definition scripted :: "(error + response) list server" where
  "scripted rq s =
     (case s of [] \<Rightarrow> (Inl (RequestException ''no response''), []) | r # rs \<Rightarrow> (r, rs))"

definition demo_cfg :: config where
  "demo_cfg = \<lparr>CONFLUENCE_BASE_URL = ''https://wiki.example'', API_TOKEN = ''token'',
                SPACE_KEY = Some ''DS'', PARENT_PAGE_TITLE = Some ''Home'', CERT_PATH = None\<rparr>"

definition page :: "string \<Rightarrow> string list \<Rightarrow> int \<Rightarrow> content" where
  "page i parents v =
     \<lparr>c_id = i, c_ancestors = Some (map (\<lambda>a. \<lparr>a_id = a\<rparr>) parents), c_version_number = Some v\<rparr>"

definition listing_json :: "content list \<Rightarrow> json" where
  "listing_json rs = \<lparr>j_size = Some (int (length rs)), j_results = Some rs, j_links_webui = None\<rparr>"

definition listing :: "content list \<Rightarrow> response" where
  "listing rs = \<lparr>status_code = 200, resp_text = [], resp_json = Inr (listing_json rs)\<rparr>"

definition written :: "int \<Rightarrow> string \<Rightarrow> response" where
  "written code link =
     \<lparr>status_code = code, resp_text = [],
      resp_json = Inr \<lparr>j_size = None, j_results = None, j_links_webui = Some link\<rparr>\<rparr>"

definition refused :: "int \<Rightarrow> string \<Rightarrow> response" where
  "refused code message =
     \<lparr>status_code = code, resp_text = message, resp_json = Inl ''Expecting value''\<rparr>"

definition start :: "response list \<Rightarrow> (error + response) list world" where
  "start answers = \<lparr>server_state = map Inr answers, sent = [], printed = []\<rparr>"

definition home :: response where
  "home = listing [page ''100'' [] 1]"

definition candidates :: response where
  "candidates = listing [page ''7'' [''1'', ''200''] 3, page ''8'' [''1'', ''100''] 5]"















section \<open>A model of the platform's attachments\<close>

text \<open>
  The platform is not part of the repository. This model of its attachment endpoints
  follows the specification's data model: a page has at most one live attachment per
  file name; a create under a name in use is refused with status 400 and a message about
  the same file name; a POST to an attachment's data endpoint replaces its content and
  keeps its id and its file name; a GET on the attachments of a page lists them, only
  those of the given name when the query has a \<open>filename\<close> parameter.
\<close>

record attachment =
  att_id :: string
  att_page :: string
  att_filename :: string
  att_bytes :: string
  att_version :: nat

record platform =
  attachments :: "attachment list"
  next_id :: nat

text \<open>
  A URL is read as usual: the path ends at the first \<open>?\<close> or \<open>#\<close>, the query runs from
  the \<open>?\<close> to the \<open>#\<close>, its parameters are separated by \<open>&\<close> and a name is separated
  from its value by the first \<open>=\<close>. Values are compared as they stand.
\<close>

fun split_on :: "char \<Rightarrow> string \<Rightarrow> string list" where
  "split_on sep [] = [[]]"
| "split_on sep (c # cs) =
     (if c = sep then [] # split_on sep cs
      else (case split_on sep cs of [] \<Rightarrow> [[c]] | part # parts \<Rightarrow> (c # part) # parts))"

definition url_path :: "string \<Rightarrow> string" where
  "url_path u = takeWhile (\<lambda>c. c \<noteq> CHR ''?'' \<and> c \<noteq> CHR ''#'') u"

definition url_query :: "string \<Rightarrow> string" where
  "url_query u =
     drop 1 (dropWhile (\<lambda>c. c \<noteq> CHR ''?'') (takeWhile (\<lambda>c. c \<noteq> CHR ''#'') u))"

definition query_params :: "string \<Rightarrow> (string \<times> string) list" where
  "query_params q =
     map (\<lambda>kv. (takeWhile (\<lambda>c. c \<noteq> CHR ''='') kv, drop 1 (dropWhile (\<lambda>c. c \<noteq> CHR ''='') kv)))
       (filter (\<lambda>kv. kv \<noteq> []) (split_on CHR ''&'' q))"

definition attachment_json :: "attachment \<Rightarrow> content" where
  "attachment_json a =
     \<lparr>c_id = att_id a, c_ancestors = None, c_version_number = Some (int (att_version a))\<rparr>"

definition reply :: "int \<Rightarrow> string \<Rightarrow> content list option \<Rightarrow> error + response" where
  "reply code message rs =
     Inr \<lparr>status_code = code, resp_text = message,
          resp_json = Inr \<lparr>j_size = map_option (\<lambda>r. int (length r)) rs, j_results = rs,
                           j_links_webui = None\<rparr>\<rparr>"

definition attachment_platform :: "config \<Rightarrow> platform server" where
  "attachment_platform cfg rq s =
     (let root = CONFLUENCE_BASE_URL cfg @ ''/rest/api/content/'';
          path = url_path (url rq);
          query = query_params (url_query (url rq))
      in if prefix root path
         then
           (case split_on CHR ''/'' (drop (length root) path) of
              [page_id, seg1, seg2] \<Rightarrow>
                if seg1 = ''child'' \<and> seg2 = ''attachment''
                then
                  (case (r_method rq, body rq) of
                     (GET, _) \<Rightarrow>
                       (reply 200 []
                          (Some (map attachment_json
                             (filter (\<lambda>a. att_page a = page_id
                                        \<and> (case map_of query ''filename'' of
                                              None \<Rightarrow> True
                                            | Some name \<Rightarrow> att_filename a = name))
                                (attachments s)))), s)
                   | (POST, Files filename file_bytes mime_type) \<Rightarrow>
                       if list_ex (\<lambda>a. att_page a = page_id \<and> att_filename a = filename)
                            (attachments s)
                       then
                         (reply 400
                            (''Cannot add a new attachment with same file name as an existing attachment: ''
                             @ filename) None, s)
                       else
                         (let a = \<lparr>att_id = ''att'' @ str_nat (next_id s), att_page = page_id,
                                   att_filename = filename, att_bytes = file_bytes,
                                   att_version = 1\<rparr>
                          in (reply 200 [] (Some [attachment_json a]),
                              \<lparr>attachments = attachments s @ [a], next_id = Suc (next_id s)\<rparr>))
                   | _ \<Rightarrow> (reply 405 ''Method Not Allowed'' None, s))
                else (reply 404 ''Not Found'' None, s)
            | [page_id, seg1, seg2, attachment_id, seg4] \<Rightarrow>
                if seg1 = ''child'' \<and> seg2 = ''attachment'' \<and> seg4 = ''data''
                then
                  (case (r_method rq, body rq) of
                     (POST, Files filename file_bytes mime_type) \<Rightarrow>
                       if list_ex (\<lambda>a. att_page a = page_id \<and> att_id a = attachment_id) (attachments s)
                       then
                         (reply 200 [] None,
                          s\<lparr>attachments :=
                              map (\<lambda>a. if att_page a = page_id \<and> att_id a = attachment_id
                                       then a\<lparr>att_bytes := file_bytes,
                                              att_version := Suc (att_version a)\<rparr>
                                       else a) (attachments s)\<rparr>)
                       else (reply 404 ''Not Found'' None, s)
                   | _ \<Rightarrow> (reply 405 ''Method Not Allowed'' None, s))
                else (reply 404 ''Not Found'' None, s)
            | _ \<Rightarrow> (reply 404 ''Not Found'' None, s))
         else (reply 404 ''Not Found'' None, s))"

definition empty_platform :: "platform world" where
  "empty_platform = \<lparr>server_state = \<lparr>attachments = [], next_id = 1\<rparr>, sent = [], printed = []\<rparr>"

text \<open>Two calls of the attachment upsert in succession, for one page and one file name.\<close>

definition upload_twice ::
  "config \<Rightarrow> 's server \<Rightarrow> string \<Rightarrow> string \<Rightarrow> string \<Rightarrow> string \<Rightarrow> string \<Rightarrow> 's world
     \<Rightarrow> (error + json) \<times> 's world" where
  "upload_twice cfg srv page_id filename first_bytes second_bytes mime_type w =
     upload_attachment_to_page cfg srv page_id filename second_bytes mime_type
       (snd (upload_attachment_to_page cfg srv page_id filename first_bytes mime_type w))"

section \<open>The CDATA escape decodes to the source text\<close>

lemma prefix3: "prefix [a, b, c] s \<longleftrightarrow> (\<exists>t. s = a # b # c # t)"
  by (auto simp: prefix_def)

lemma escape_Nil: "cdata_escape [] = []"
  by (simp add: cdata_escape_def)

lemma escape_hit:
  "cdata_escape (CHR '']'' # CHR '']'' # CHR ''>'' # t) = '']]]]><![CDATA[>'' @ cdata_escape t"
  by (simp add: cdata_escape_def)

lemma escape_miss:
  "\<not> prefix '']]>'' (c # cs) \<Longrightarrow> cdata_escape (c # cs) = c # cdata_escape cs"
  by (simp only: cdata_escape_def replace.simps if_False list.distinct)

text \<open>Escaping never makes an end marker where the source had none.\<close>

lemma escape_keeps_head:
  assumes "prefix '']]>'' (c # cdata_escape cs @ '']]>'' @ tail)"
  shows "prefix '']]>'' (c # cs)"
proof (cases cs)
  case Nil
  with assms show ?thesis by (simp add: escape_Nil)
next
  case (Cons d ds)
  show ?thesis
  proof (cases "prefix '']]>'' cs")
    case True
    then obtain t where "cs = '']]>'' @ t" by (auto simp: prefix3)
    with assms show ?thesis by (simp add: escape_hit)
  next
    case False
    with Cons have e: "cdata_escape cs = d # cdata_escape ds" by (simp add: escape_miss)
    show ?thesis
    proof (cases ds)
      case Nil
      with assms e Cons show ?thesis by (simp add: escape_Nil)
    next
      case (Cons e' es)
      show ?thesis
      proof (cases "prefix '']]>'' ds")
        case True
        then obtain t where "ds = '']]>'' @ t" by (auto simp: prefix3)
        with assms e show ?thesis by (simp add: escape_hit)
      next
        case False
        with Cons have "cdata_escape ds = e' # cdata_escape es" by (simp add: escape_miss)
        with assms e Cons \<open>cs = d # ds\<close> show ?thesis by auto
      qed
    qed
  qed
qed

lemma cdata_sections_open: "cdata_sections (''<![CDATA['' @ x) = cdata_from x"
  by (subst cdata_sections.simps) (simp add: cdata_from_def)

lemma cdata_sections_other:
  "\<not> prefix ''<![CDATA['' s \<Longrightarrow> cdata_sections s = Some ([], s)"
  by (subst cdata_sections.simps) simp

lemma cdata_from_step:
  "\<not> prefix '']]>'' (c # x) \<Longrightarrow>
     cdata_from (c # x) = map_option (\<lambda>(a, t). (c # a, t)) (cdata_from x)"
  by (auto simp: cdata_from_def option.map_comp comp_def case_prod_unfold split: option.splits)

lemma cdata_from_end: "cdata_from ('']]>'' @ r) = cdata_sections r"
  by (cases "cdata_sections r") (auto simp: cdata_from_def)

lemma cdata_from_escape:
  "\<not> prefix ''<![CDATA['' tail \<Longrightarrow>
     cdata_from (cdata_escape s @ '']]>'' @ tail) = Some (s, tail)"
proof (induction s rule: length_induct)
  case (1 s)
  show ?case
  proof (cases s)
    case Nil
    with 1(2) show ?thesis
      using cdata_from_end [of tail] by (simp add: escape_Nil cdata_sections_other)
  next
    case (Cons c cs)
    show ?thesis
    proof (cases "prefix '']]>'' s")
      case True
      then obtain t where s: "s = '']]>'' @ t" by (auto simp: prefix3)
      then have "length t < length s" by simp
      with 1 have ih: "cdata_from (cdata_escape t @ '']]>'' @ tail) = Some (t, tail)" by blast
      have "cdata_from (cdata_escape s @ '']]>'' @ tail)
          = cdata_from ('']]'' @ '']]>'' @ (''<![CDATA['' @ (CHR ''>'' # cdata_escape t @ '']]>'' @ tail)))"
        by (simp add: s escape_hit)
      also have "\<dots> = map_option (\<lambda>(a, u). ('']]'' @ a, u))
            (cdata_sections (''<![CDATA['' @ (CHR ''>'' # cdata_escape t @ '']]>'' @ tail)))"
        unfolding cdata_from_def
        by (simp add: option.map_comp comp_def case_prod_unfold split: option.splits)
      also have "\<dots> = map_option (\<lambda>(a, u). ('']]'' @ a, u))
            (cdata_from (CHR ''>'' # cdata_escape t @ '']]>'' @ tail))"
        by (simp only: cdata_sections_open)
      also have "\<dots> = Some (s, tail)"
        using ih by (simp add: cdata_from_step s)
      finally show ?thesis .
    next
      case False
      with Cons have e: "cdata_escape s = c # cdata_escape cs" by (simp add: escape_miss)
      from False Cons have "\<not> prefix '']]>'' (c # cdata_escape cs @ '']]>'' @ tail)"
        using escape_keeps_head by blast
      moreover from 1 Cons have "cdata_from (cdata_escape cs @ '']]>'' @ tail) = Some (cs, tail)"
        by simp
      ultimately show ?thesis using Cons e by (simp add: cdata_from_step)
    qed
  qed
qed

lemma plain_text_body_reads:
  "plain_text_body_text (plain_text_body (cdata_escape s) @ rest) = Some s"
proof -
  have "cdata_sections (''<![CDATA['' @ (cdata_escape s @ '']]>'' @ (''</ac:plain-text-body>'' @ rest)))
      = Some (s, ''</ac:plain-text-body>'' @ rest)"
    by (simp only: cdata_sections_open) (rule cdata_from_escape, simp)
  then show ?thesis
    by (simp add: plain_text_body_text_def plain_text_body_def)
qed

text \<open>
  C8. For every source text, the text between the opening marker and the closing tag of
  the code block is read back as the text that was escaped: an end marker in the source
  is literal character data and does not close the block. This holds for the page body
  of \<open>upload_skill_file\<close> (where the escaped text is the file's text after its CRLF
  replacement) and for the code body of \<open>get_content_body_for_file\<close>, whatever follows
  the block.
\<close>

theorem cdata_round_trip:
  "plain_text_body_text (plain_text_body (cdata_escape s) @ rest) = Some s
   \<and> (\<exists>before after.
         code_body filename s = before @ plain_text_body (cdata_escape s) @ after
         \<and> plain_text_body_text (plain_text_body (cdata_escape s) @ after) = Some s)
   \<and> (\<exists>before after.
         skill_html_content filename s
           = before @ plain_text_body (skill_safe_content s) @ after
         \<and> plain_text_body_text (plain_text_body (skill_safe_content s) @ after)
             = Some (replace [CHR 0x0D, CHR 0x0A] [CHR 0x0A] s))"
proof (intro conjI)
  show "plain_text_body_text (plain_text_body (cdata_escape s) @ rest) = Some s"
    by (rule plain_text_body_reads)
next
  show "\<exists>before after.
         code_body filename s = before @ plain_text_body (cdata_escape s) @ after
         \<and> plain_text_body_text (plain_text_body (cdata_escape s) @ after) = Some s"
    using code_body_def plain_text_body_reads by blast
next
  have "plain_text_body_text (plain_text_body (skill_safe_content s) @ skill_html_tail)
          = Some (replace [CHR 0x0D, CHR 0x0A] [CHR 0x0A] s)"
    unfolding skill_safe_content_def by (rule plain_text_body_reads)
  then show "\<exists>before after.
         skill_html_content filename s
           = before @ plain_text_body (skill_safe_content s) @ after
         \<and> plain_text_body_text (plain_text_body (skill_safe_content s) @ after)
             = Some (replace [CHR 0x0D, CHR 0x0A] [CHR 0x0A] s)"
    using skill_html_content_def by blast
qed

section \<open>Requests and lines left by the operations\<close>

lemma send_effect:
  "send srv rq w = (a, w') \<Longrightarrow> sent w' = sent w @ [rq] \<and> printed w' = printed w"
  by (auto simp: send_def split: prod.splits)

lemma lookup_effect:
  "get_page_id_by_title cfg srv title w = (Inr i, w1) \<Longrightarrow>
     sent w1 = sent w @ [lookup_request cfg title] \<and> printed w1 = printed w"
  unfolding get_page_id_by_title_def
  by (auto split: if_splits prod.splits sum.splits option.splits list.splits dest: send_effect)

lemma find_existing_none:
  "filter (under_parent p) rs = [] \<Longrightarrow> find_existing p rs = Inr (False, None, 1)"
  by (induction rs) (auto simp: under_parent_def Let_def split: option.splits if_splits)

lemma find_existing_some:
  "find (under_parent p) rs = Some r \<Longrightarrow>
     find_existing p rs =
       (case c_version_number r of
          None \<Rightarrow> Inl (KeyError ''version'')
        | Some n \<Rightarrow> Inr (True, Some (c_id r), n + 1))"
  by (induction rs) (auto simp: under_parent_def Let_def split: option.splits if_splits)

lemma find_existing_True:
  "find_existing p rs = Inr (True, i, v) \<Longrightarrow>
     \<exists>r. find (under_parent p) rs = Some r \<and> i = Some (c_id r) \<and> c_version_number r = Some (v - 1)"
  by (induction rs) (auto simp: under_parent_def Let_def split: option.splits if_splits)


lemma demo_lookup:
  "get_page_id_by_title demo_cfg scripted (Some ''Home'') (start (home # rest))
     = (Inr ''100'', \<lparr>server_state = map Inr rest,
                       sent = [lookup_request demo_cfg (Some ''Home'')], printed = []\<rparr>)"
  by (simp add: get_page_id_by_title_def demo_cfg_def truthy_def send_def scripted_def start_def
      home_def listing_def listing_json_def page_def)

lemma demo_send:
  "send scripted rq \<lparr>server_state = Inr a # rest, sent = qs, printed = ps\<rparr>
     = (Inr a, \<lparr>server_state = rest, sent = qs @ [rq], printed = ps\<rparr>)"
  by (simp add: send_def scripted_def)

lemma demo_candidates:
  "status_code candidates = 200"
  "resp_json candidates
     = Inr (listing_json [page ''7'' [''1'', ''200''] 3, page ''8'' [''1'', ''100''] 5])"
  "get_results (listing_json [page ''7'' [''1'', ''200''] 3, page ''8'' [''1'', ''100''] 5])
     = [page ''7'' [''1'', ''200''] 3, page ''8'' [''1'', ''100''] 5]"
  "under_parent ''100'' (page ''8'' [''1'', ''100''] 5)"
  "\<not> under_parent ''100'' (page ''7'' [''1'', ''200''] 3)"
  "c_id (page ''8'' [''1'', ''100''] 5) = ''8''"
  "c_id (page ''7'' [''1'', ''200''] 3) = ''7''"
  "c_version_number (page ''8'' [''1'', ''100''] 5) = Some 5"
  by (simp_all add: candidates_def listing_def listing_json_def get_results_def under_parent_def
      page_def)

lemma demo_existence:
  "send scripted (existence_request demo_cfg t)
        \<lparr>server_state = map Inr (a # rest),
          sent = [lookup_request demo_cfg (Some ''Home'')], printed = []\<rparr>
      = (Inr a,
         \<lparr>server_state = map Inr rest,
          sent = [lookup_request demo_cfg (Some ''Home''), existence_request demo_cfg t],
          printed = []\<rparr>)"
  by (simp add: demo_send)

section \<open>Title resolution\<close>

text \<open>
  C7. With the configuration set and the title query answered with status 200 and a
  result list whose \<open>size\<close> is its length, \<open>get_page_id_by_title\<close> raises the
  "No page found" exception exactly when the list is empty, and otherwise returns the id
  of the first result; it never returns normally on an empty list.
\<close>

theorem title_resolution:
  assumes "CONFLUENCE_BASE_URL cfg \<noteq> []" and "truthy (SPACE_KEY cfg)"
    and "send srv (lookup_request cfg title) w = (Inr response, w1)"
    and "status_code response = 200" and "resp_json response = Inr data"
    and "j_results data = Some rs" and "j_size data = Some (int (length rs))"
  shows "get_page_id_by_title cfg srv title w =
           (case rs of
              [] \<Rightarrow> Inl (Exception (not_found_message cfg title))
            | first # _ \<Rightarrow> Inr (c_id first), w1)
         \<and> ((fst (get_page_id_by_title cfg srv title w)
                = Inl (Exception (not_found_message cfg title))) = (rs = []))"
  using assms by (auto simp: get_page_id_by_title_def split: list.splits)

theorem title_resolution_witness:
  "get_page_id_by_title demo_cfg scripted (Some ''Home'') (start [home])
     = (Inr ''100'', \<lparr>server_state = [], sent = [lookup_request demo_cfg (Some ''Home'')],
                      printed = []\<rparr>)
   \<and> get_page_id_by_title demo_cfg scripted (Some ''Nowhere'') (start [listing []])
     = (Inl (Exception (''No page found with title '' @ sq ''Nowhere'' @ '' in space '' @ sq ''DS'')),
        \<lparr>server_state = [], sent = [lookup_request demo_cfg (Some ''Nowhere'')], printed = []\<rparr>)"
proof -
  have c: "CONFLUENCE_BASE_URL demo_cfg \<noteq> []" "truthy (SPACE_KEY demo_cfg)"
    by (simp_all add: demo_cfg_def truthy_def)
  have a: "send scripted (lookup_request demo_cfg (Some ''Home'')) (start [home])
        = (Inr home, \<lparr>server_state = [], sent = [lookup_request demo_cfg (Some ''Home'')],
                       printed = []\<rparr>)"
    by (simp add: start_def demo_send)
  have b: "send scripted (lookup_request demo_cfg (Some ''Nowhere'')) (start [listing []])
        = (Inr (listing []), \<lparr>server_state = [], sent = [lookup_request demo_cfg (Some ''Nowhere'')],
                       printed = []\<rparr>)"
    by (simp add: start_def demo_send)
  have "status_code home = 200" "resp_json home = Inr (listing_json [page ''100'' [] 1])"
    "j_results (listing_json [page ''100'' [] 1]) = Some [page ''100'' [] 1]"
    "j_size (listing_json [page ''100'' [] 1]) = Some (int (length [page ''100'' [] 1]))"
    by (simp_all add: home_def listing_def listing_json_def)
  from title_resolution [OF c a this]
  have 1: "get_page_id_by_title demo_cfg scripted (Some ''Home'') (start [home])
     = (Inr ''100'', \<lparr>server_state = [], sent = [lookup_request demo_cfg (Some ''Home'')],
                      printed = []\<rparr>)"
    by (simp add: page_def)
  have "status_code (listing []) = 200" "resp_json (listing []) = Inr (listing_json [])"
    "j_results (listing_json []) = Some []"
    "j_size (listing_json []) = Some (int (length ([] :: content list)))"
    by (simp_all add: listing_def listing_json_def)
  from title_resolution [OF c b this]
  have 2: "get_page_id_by_title demo_cfg scripted (Some ''Nowhere'') (start [listing []])
     = (Inl (Exception (''No page found with title '' @ sq ''Nowhere'' @ '' in space '' @ sq ''DS'')),
        \<lparr>server_state = [], sent = [lookup_request demo_cfg (Some ''Nowhere'')], printed = []\<rparr>)"
    by (simp add: not_found_message_def py_str_def demo_cfg_def)
  from 1 2 show ?thesis by simp
qed

section \<open>The page upsert\<close>

text \<open>
  C10. When the parent resolves and the existence query is answered with a status other
  than 200, \<open>new_page\<close> sends the create request next: the requests issued are the parent
  lookup, the existence query and the create, and any exception it raises is the one of
  the create request or of reading its answer, never one for the failed existence query.
\<close>

theorem existence_check_failure_creates:
  assumes "get_page_id_by_title cfg srv parent w = (Inr parent_id, w1)"
    and "send srv (existence_request cfg title) w1 = (Inr resp, w2)"
    and "status_code resp \<noteq> 200"
    and "send srv (create_request cfg title content parent_id) w2 = (answer, w3)"
  shows "issued w (snd (new_page cfg srv title content parent w))
           = [lookup_request cfg parent, existence_request cfg title,
              create_request cfg title content parent_id]
         \<and> (\<forall>e. fst (new_page cfg srv title content parent w) = Inl e \<longrightarrow>
                answer = Inl e \<or> (\<exists>response. answer = Inr response \<and> webui response = Inl e))"
  using assms lookup_effect [OF assms(1)] send_effect [OF assms(2)] send_effect [OF assms(4)]
  by (auto simp: new_page_def existing_def issued_def print_def split: sum.splits)

theorem existence_check_failure_creates_witness:
  "issued (start [home, refused 503 ''unavailable'', written 200 ''/display/DS/X''])
     (snd (new_page demo_cfg scripted ''X'' ''body'' (Some ''Home'')
             (start [home, refused 503 ''unavailable'', written 200 ''/display/DS/X''])))
   = [lookup_request demo_cfg (Some ''Home''), existence_request demo_cfg ''X'',
      create_request demo_cfg ''X'' ''body'' ''100'']
   \<and> fst (new_page demo_cfg scripted ''X'' ''body'' (Some ''Home'')
             (start [home, refused 503 ''unavailable'', written 200 ''/display/DS/X''])) = Inr ()"
proof -
  let ?w = "start [home, refused 503 ''unavailable'', written 200 ''/display/DS/X'']"
  have h1: "get_page_id_by_title demo_cfg scripted (Some ''Home'') ?w
      = (Inr ''100'', \<lparr>server_state = map Inr [refused 503 ''unavailable'', written 200 ''/display/DS/X''],
                        sent = [lookup_request demo_cfg (Some ''Home'')], printed = []\<rparr>)"
    by (rule demo_lookup)
  have h2: "send scripted (existence_request demo_cfg ''X'')
        \<lparr>server_state = map Inr [refused 503 ''unavailable'', written 200 ''/display/DS/X''],
          sent = [lookup_request demo_cfg (Some ''Home'')], printed = []\<rparr>
      = (Inr (refused 503 ''unavailable''),
         \<lparr>server_state = [Inr (written 200 ''/display/DS/X'')],
          sent = [lookup_request demo_cfg (Some ''Home''), existence_request demo_cfg ''X''],
          printed = []\<rparr>)"
    by (simp add: demo_send)
  have h3: "status_code (refused 503 ''unavailable'') \<noteq> 200"
    by (simp add: refused_def)
  have h4: "send scripted (create_request demo_cfg ''X'' ''body'' ''100'')
         \<lparr>server_state = [Inr (written 200 ''/display/DS/X'')],
          sent = [lookup_request demo_cfg (Some ''Home''), existence_request demo_cfg ''X''],
          printed = []\<rparr>
      = (Inr (written 200 ''/display/DS/X''),
         \<lparr>server_state = [],
          sent = [lookup_request demo_cfg (Some ''Home''), existence_request demo_cfg ''X'',
                  create_request demo_cfg ''X'' ''body'' ''100''],
          printed = []\<rparr>)"
    by (simp add: demo_send)
  have h5: "webui (written 200 ''/display/DS/X'') = Inr ''/display/DS/X''"
    by (simp add: webui_def written_def)
  from existence_check_failure_creates [OF h1 h2 h3 h4] h5
  have "issued ?w (snd (new_page demo_cfg scripted ''X'' ''body'' (Some ''Home'') ?w))
          = [lookup_request demo_cfg (Some ''Home''), existence_request demo_cfg ''X'',
             create_request demo_cfg ''X'' ''body'' ''100'']"
    and "\<forall>e. fst (new_page demo_cfg scripted ''X'' ''body'' (Some ''Home'') ?w) \<noteq> Inl e"
    by auto
  then show ?thesis
    by (cases "fst (new_page demo_cfg scripted ''X'' ''body'' (Some ''Home'') ?w)") auto
qed

text \<open>
  C3. When the existence query is answered with status 200 and no candidate has the
  resolved parent as its last ancestor, \<open>new_page\<close> issues exactly one write, a POST
  whose payload has the resolved parent as its only ancestor, and no PUT.
\<close>

theorem create_when_no_match:
  assumes "get_page_id_by_title cfg srv parent w = (Inr parent_id, w1)"
    and "send srv (existence_request cfg title) w1 = (Inr resp, w2)"
    and "status_code resp = 200" and "resp_json resp = Inr data"
    and "filter (under_parent parent_id) (get_results data) = []"
  shows "issued w (snd (new_page cfg srv title content parent w))
           = [lookup_request cfg parent, existence_request cfg title,
              create_request cfg title content parent_id]
         \<and> r_method (create_request cfg title content parent_id) = POST
         \<and> (\<exists>pl. body (create_request cfg title content parent_id) = Json pl
                 \<and> p_ancestors pl = [\<lparr>a_id = parent_id\<rparr>])
         \<and> filter (\<lambda>q. r_method q = PUT) (issued w (snd (new_page cfg srv title content parent w))) = []"
proof -
  obtain answer w3 where s3: "send srv (create_request cfg title content parent_id) w2 = (answer, w3)"
    by (cases "send srv (create_request cfg title content parent_id) w2")
  have ex: "existing resp parent_id = Inr (False, None, 1)"
    using assms(3-5) by (simp add: existing_def find_existing_none)
  have "issued w (snd (new_page cfg srv title content parent w))
           = [lookup_request cfg parent, existence_request cfg title,
              create_request cfg title content parent_id]"
    using assms(1,2) s3 ex lookup_effect [OF assms(1)] send_effect [OF assms(2)] send_effect [OF s3]
    by (auto simp: new_page_def issued_def print_def split: sum.splits)
  then show ?thesis
    by (simp add: create_request_def lookup_request_def existence_request_def)
qed

theorem create_when_no_match_witness:
  "issued (start [home, listing [page ''7'' [''1'', ''200''] 3], written 201 ''/display/DS/X''])
     (snd (new_page demo_cfg scripted ''X'' ''body'' (Some ''Home'')
             (start [home, listing [page ''7'' [''1'', ''200''] 3], written 201 ''/display/DS/X''])))
   = [lookup_request demo_cfg (Some ''Home''), existence_request demo_cfg ''X'',
      create_request demo_cfg ''X'' ''body'' ''100'']"
proof -
  have h3: "status_code (listing [page ''7'' [''1'', ''200''] 3]) = 200"
    and h4: "resp_json (listing [page ''7'' [''1'', ''200''] 3])
               = Inr (listing_json [page ''7'' [''1'', ''200''] 3])"
    and h5: "filter (under_parent ''100'') (get_results (listing_json [page ''7'' [''1'', ''200''] 3])) = []"
    by (simp_all add: listing_def listing_json_def get_results_def demo_candidates)
  from create_when_no_match [OF demo_lookup demo_existence h3 h4 h5]
  show ?thesis by simp
qed

lemma issued_when_match:
  assumes "get_page_id_by_title cfg srv parent w = (Inr parent_id, w1)"
    and "send srv (existence_request cfg title) w1 = (Inr resp, w2)"
    and "status_code resp = 200" and "resp_json resp = Inr data"
    and "find (under_parent parent_id) (get_results data) = Some r"
    and "c_version_number r = Some v"
  shows "issued w (snd (new_page cfg srv title content parent w))
           = [lookup_request cfg parent, existence_request cfg title,
              update_request cfg title content parent_id (Some (c_id r)) (v + 1)]"
proof -
  let ?u = "update_request cfg title content parent_id (Some (c_id r)) (v + 1)"
  obtain answer w3 where s3: "send srv ?u w2 = (answer, w3)"
    by (cases "send srv ?u w2")
  have ex: "existing resp parent_id = Inr (True, Some (c_id r), v + 1)"
    using assms(3-6) by (simp add: existing_def find_existing_some)
  show ?thesis
    using assms(1,2) s3 ex lookup_effect [OF assms(1)] send_effect [OF assms(2)] send_effect [OF s3]
    by (auto simp: new_page_def issued_def print_def split: sum.splits)
qed

text \<open>
  C2. When the existence query is answered with status 200 and \<open>r\<close> is the first candidate
  whose last ancestor is the resolved parent, with version number \<open>v\<close>, \<open>new_page\<close> issues
  a PUT for the page \<open>r\<close> whose declared version is \<open>v + 1\<close>, and no POST.
\<close>

theorem update_when_match:
  assumes "get_page_id_by_title cfg srv parent w = (Inr parent_id, w1)"
    and "send srv (existence_request cfg title) w1 = (Inr resp, w2)"
    and "status_code resp = 200" and "resp_json resp = Inr data"
    and "find (under_parent parent_id) (get_results data) = Some r"
    and "c_version_number r = Some v"
  shows "issued w (snd (new_page cfg srv title content parent w))
           = [lookup_request cfg parent, existence_request cfg title,
              update_request cfg title content parent_id (Some (c_id r)) (v + 1)]
         \<and> r_method (update_request cfg title content parent_id (Some (c_id r)) (v + 1)) = PUT
         \<and> (\<exists>pl. body (update_request cfg title content parent_id (Some (c_id r)) (v + 1)) = Json pl
                 \<and> p_version pl = Some (v + 1) \<and> p_id pl = Some (c_id r))
         \<and> filter (\<lambda>q. r_method q = POST) (issued w (snd (new_page cfg srv title content parent w))) = []"
  using issued_when_match [OF assms]
  by (simp add: update_request_def lookup_request_def existence_request_def)

theorem update_when_match_witness:
  "issued (start [home, candidates, written 200 ''/display/DS/X''])
     (snd (new_page demo_cfg scripted ''X'' ''body'' (Some ''Home'')
             (start [home, candidates, written 200 ''/display/DS/X''])))
   = [lookup_request demo_cfg (Some ''Home''), existence_request demo_cfg ''X'',
      update_request demo_cfg ''X'' ''body'' ''100'' (Some ''8'') 6]"
proof -
  have h5: "find (under_parent ''100'')
      (get_results (listing_json [page ''7'' [''1'', ''200''] 3, page ''8'' [''1'', ''100''] 5]))
      = Some (page ''8'' [''1'', ''100''] 5)"
    by (simp add: demo_candidates)
  from update_when_match [OF demo_lookup demo_existence demo_candidates(1,2) h5 demo_candidates(8)]
  show ?thesis by (simp add: demo_candidates)
qed

lemma new_page_puts:
  assumes "get_page_id_by_title cfg srv parent w = (Inr parent_id, w1)"
    and "send srv (existence_request cfg title) w1 = (Inr resp, w2)"
    and "q \<in> set (issued w (snd (new_page cfg srv title content parent w)))"
    and "r_method q = PUT"
  shows "\<exists>i v. existing resp parent_id = Inr (True, i, v)
           \<and> q = update_request cfg title content parent_id i v"
proof (cases "existing resp parent_id")
  case (Inl e)
  with assms lookup_effect [OF assms(1)] send_effect [OF assms(2)] show ?thesis
    by (auto simp: new_page_def issued_def lookup_request_def existence_request_def)
next
  case (Inr t)
  obtain ex i v where t: "t = (ex, i, v)" by (cases t)
  show ?thesis
  proof (cases ex)
    case True
    obtain answer w3 where s3: "send srv (update_request cfg title content parent_id i v) w2 = (answer, w3)"
      by (cases "send srv (update_request cfg title content parent_id i v) w2")
    from assms(3,4) assms(1,2) Inr t True s3
      lookup_effect [OF assms(1)] send_effect [OF assms(2)] send_effect [OF s3]
    show ?thesis
      by (auto simp: new_page_def issued_def print_def lookup_request_def existence_request_def
          split: sum.splits if_splits)
  next
    case False
    obtain answer w3 where s3: "send srv (create_request cfg title content parent_id) w2 = (answer, w3)"
      by (cases "send srv (create_request cfg title content parent_id) w2")
    from assms(3,4) assms(1,2) Inr t False s3
      lookup_effect [OF assms(1)] send_effect [OF assms(2)] send_effect [OF s3]
    show ?thesis
      by (auto simp: new_page_def issued_def print_def lookup_request_def existence_request_def
          create_request_def split: sum.splits if_splits)
  qed
qed

text \<open>
  C1. Whatever candidates the existence query returns (with distinct ids), every PUT
  that \<open>new_page\<close> issues targets a candidate whose last ancestor is the resolved parent,
  and targets no candidate under another parent.
\<close>

theorem update_target_under_parent:
  assumes "get_page_id_by_title cfg srv parent w = (Inr parent_id, w1)"
    and "send srv (existence_request cfg title) w1 = (Inr resp, w2)"
    and "status_code resp = 200" and "resp_json resp = Inr data"
    and "distinct (map c_id (get_results data))"
    and "q \<in> set (issued w (snd (new_page cfg srv title content parent w)))"
    and "r_method q = PUT"
  shows "(\<exists>a \<in> set (get_results data). under_parent parent_id a
            \<and> url q = content_url cfg @ c_id a
            \<and> (\<exists>pl. body q = Json pl \<and> p_id pl = Some (c_id a)))
         \<and> (\<forall>b \<in> set (get_results data). \<not> under_parent parent_id b \<longrightarrow>
               url q \<noteq> content_url cfg @ c_id b
               \<and> (\<forall>pl. body q = Json pl \<longrightarrow> p_id pl \<noteq> Some (c_id b)))"
proof -
  from new_page_puts [OF assms(1,2,6,7)] obtain i v where
    ex: "existing resp parent_id = Inr (True, i, v)"
    and q: "q = update_request cfg title content parent_id i v" by blast
  from ex assms(3,4) have "find_existing parent_id (get_results data) = Inr (True, i, v)"
    by (simp add: existing_def)
  from find_existing_True [OF this] obtain a where
    a: "find (under_parent parent_id) (get_results data) = Some a" and i: "i = Some (c_id a)"
    by blast
  from a have a_in: "a \<in> set (get_results data)" and a_up: "under_parent parent_id a"
    by (auto simp: find_Some_iff)
  have target: "url q = content_url cfg @ c_id a \<and> (\<exists>pl. body q = Json pl \<and> p_id pl = Some (c_id a))"
    by (simp add: q i update_request_def py_str_def)
  have other: "url q \<noteq> content_url cfg @ c_id b \<and> (\<forall>pl. body q = Json pl \<longrightarrow> p_id pl \<noteq> Some (c_id b))"
    if b: "b \<in> set (get_results data)" "\<not> under_parent parent_id b" for b
  proof -
    from b a_up have "a \<noteq> b" by auto
    with a_in b(1) assms(5) have "c_id a \<noteq> c_id b"
      by (auto simp: distinct_map inj_on_def)
    then show ?thesis by (auto simp: q i update_request_def py_str_def)
  qed
  from a_in a_up target other show ?thesis by blast
qed

theorem update_target_under_parent_witness:
  "update_request demo_cfg ''X'' ''body'' ''100'' (Some ''8'') 6
     \<in> set (issued (start [home, candidates, written 200 ''/display/DS/X''])
         (snd (new_page demo_cfg scripted ''X'' ''body'' (Some ''Home'')
             (start [home, candidates, written 200 ''/display/DS/X'']))))
   \<and> url (update_request demo_cfg ''X'' ''body'' ''100'' (Some ''8'') 6)
       = content_url demo_cfg @ ''8''
   \<and> url (update_request demo_cfg ''X'' ''body'' ''100'' (Some ''8'') 6)
       \<noteq> content_url demo_cfg @ ''7''"
proof -
  let ?q = "update_request demo_cfg ''X'' ''body'' ''100'' (Some ''8'') 6"
  let ?w = "start [home, candidates, written 200 ''/display/DS/X'']"
  have h5: "find (under_parent ''100'')
      (get_results (listing_json [page ''7'' [''1'', ''200''] 3, page ''8'' [''1'', ''100''] 5]))
      = Some (page ''8'' [''1'', ''100''] 5)"
    by (simp add: demo_candidates)
  from issued_when_match [OF demo_lookup demo_existence demo_candidates(1,2) h5 demo_candidates(8)]
  have i: "issued ?w (snd (new_page demo_cfg scripted ''X'' ''body'' (Some ''Home'') ?w))
      = [lookup_request demo_cfg (Some ''Home''), existence_request demo_cfg ''X'', ?q]"
    by (simp add: demo_candidates)
  then have h6: "?q \<in> set (issued ?w (snd (new_page demo_cfg scripted ''X'' ''body'' (Some ''Home'') ?w)))"
    by simp
  have h7: "r_method ?q = PUT" by (simp add: update_request_def)
  have h8: "distinct (map c_id (get_results (listing_json [page ''7'' [''1'', ''200''] 3, page ''8'' [''1'', ''100''] 5])))"
    by (simp add: demo_candidates)
  from update_target_under_parent [OF demo_lookup demo_existence demo_candidates(1,2) h8 h6 h7]
  have "\<forall>b\<in>set (get_results (listing_json [page ''7'' [''1'', ''200''] 3, page ''8'' [''1'', ''100''] 5])).
          \<not> under_parent ''100'' b \<longrightarrow> url ?q \<noteq> content_url demo_cfg @ c_id b
               \<and> (\<forall>pl. body ?q = Json pl \<longrightarrow> p_id pl \<noteq> Some (c_id b))"
    by blast
  then have "url ?q \<noteq> content_url demo_cfg @ ''7''"
    by (simp add: demo_candidates)
  moreover have "url ?q = content_url demo_cfg @ ''8''"
    by (simp add: update_request_def py_str_def)
  ultimately show ?thesis using h6 by simp
qed




section \<open>The attachment upsert\<close>

text \<open>
  C6. When the create is refused with status 400 and a body that mentions the same file
  name, and the lookup by file name is answered without a match (a status other than
  200, or an empty result list), \<open>upload_attachment_to_page\<close> raises the "Failed to find
  existing attachment to update" exception, having sent the create and the lookup only.
\<close>

theorem collision_without_match_raises:
  assumes "send srv (attach_request cfg page_id filename file_bytes mime_type) w = (Inr response, w1)"
    and "status_code response = 400"
    and "contains ''same file name'' (resp_text response)"
    and "send srv (att_request cfg page_id filename) w1 = (Inr att_resp, w2)"
    and "status_code att_resp \<noteq> 200 \<or> (\<exists>j. resp_json att_resp = Inr j \<and> get_results j = [])"
  shows "upload_attachment_to_page cfg srv page_id filename file_bytes mime_type w
           = (Inl (failed_to_find att_resp), w2)
         \<and> issued w w2 = [attach_request cfg page_id filename file_bytes mime_type,
                            att_request cfg page_id filename]"
  using assms send_effect [OF assms(1)] send_effect [OF assms(4)]
  by (auto simp: upload_attachment_to_page_def issued_def)

theorem collision_without_match_raises_witness:
  "upload_attachment_to_page demo_cfg scripted ''55'' ''plot.png'' ''bytes'' ''image/png''
     (start [refused 400 ''Cannot add a new attachment with same file name as an existing attachment'',
             listing []])
   = (Inl (Exception ''Failed to find existing attachment to update: 200 ''),
      \<lparr>server_state = [],
       sent = [attach_request demo_cfg ''55'' ''plot.png'' ''bytes'' ''image/png'',
               att_request demo_cfg ''55'' ''plot.png''],
       printed = []\<rparr>)"
proof -
  let ?w = "start [refused 400 ''Cannot add a new attachment with same file name as an existing attachment'',
             listing []]"
  let ?w1 = "snd (send scripted (attach_request demo_cfg ''55'' ''plot.png'' ''bytes'' ''image/png'') ?w)"
  let ?w2 = "snd (send scripted (att_request demo_cfg ''55'' ''plot.png'') ?w1)"
  have h1: "send scripted (attach_request demo_cfg ''55'' ''plot.png'' ''bytes'' ''image/png'') ?w
              = (Inr (refused 400 ''Cannot add a new attachment with same file name as an existing attachment''), ?w1)"
    by (simp add: send_def scripted_def start_def)
  have h2: "status_code (refused 400 ''Cannot add a new attachment with same file name as an existing attachment'') = 400"
    by (simp add: refused_def)
  have h3: "contains ''same file name'' (resp_text (refused 400 ''Cannot add a new attachment with same file name as an existing attachment''))"
    by (simp add: refused_def)
  have h4: "send scripted (att_request demo_cfg ''55'' ''plot.png'') ?w1 = (Inr (listing []), ?w2)"
    by (simp add: send_def scripted_def start_def)
  have h5: "status_code (listing []) \<noteq> 200
              \<or> (\<exists>j. resp_json (listing []) = Inr j \<and> get_results j = [])"
    by (simp add: listing_def listing_json_def get_results_def)
  have s: "str_int 200 = ''200''"
    by code_simp
  from collision_without_match_raises [OF h1 h2 h3 h4 h5] show ?thesis
    by (simp add: failed_to_find_def s listing_def send_def scripted_def start_def)
qed

text \<open>
  The update path of the client: after the refusal, when the lookup is answered with a
  match, the new bytes are posted to the data endpoint of the first result, under the same
  file name, and the answer to that request is returned.
\<close>

lemma collision_with_match_updates:
  assumes "send srv (attach_request cfg page_id filename file_bytes mime_type) w = (Inr response, w1)"
    and "status_code response = 400"
    and "contains ''same file name'' (resp_text response)"
    and "send srv (att_request cfg page_id filename) w1 = (Inr att_resp, w2)"
    and "status_code att_resp = 200" and "resp_json att_resp = Inr j"
    and "get_results j = first # rest"
    and "send srv (data_request cfg page_id (c_id first) filename file_bytes mime_type) w2
           = (Inr update_resp, w3)"
    and "status_code update_resp = 200 \<or> status_code update_resp = 201"
  shows "upload_attachment_to_page cfg srv page_id filename file_bytes mime_type w
           = (json_of update_resp, w3)
         \<and> issued w w3 = [attach_request cfg page_id filename file_bytes mime_type,
                            att_request cfg page_id filename,
                            data_request cfg page_id (c_id first) filename file_bytes mime_type]"
  using assms send_effect [OF assms(1)] send_effect [OF assms(4)] send_effect [OF assms(8)]
  by (auto simp: upload_attachment_to_page_def issued_def)

text \<open>
  On the model platform, two uploads of \<open>plot.png\<close> with different bytes leave one
  attachment, with its first id and the second call's bytes.
\<close>

lemma plain_filename_replaced:
  "fst (upload_twice demo_cfg (attachment_platform demo_cfg) ''55'' ''plot.png'' ''first'' ''second''
          ''image/png'' empty_platform)
     = Inr \<lparr>j_size = None, j_results = None, j_links_webui = None\<rparr>
   \<and> attachments (server_state (snd (upload_twice demo_cfg (attachment_platform demo_cfg) ''55''
          ''plot.png'' ''first'' ''second'' ''image/png'' empty_platform)))
     = [\<lparr>att_id = ''att1'', att_page = ''55'', att_filename = ''plot.png'',
         att_bytes = ''second'', att_version = 2\<rparr>]"
  by code_simp

text \<open>
  C5 (the code departs from the claim at a file name with \<open>&\<close>). The lookup URL is built by
  pasting the file name into the query string. For \<open>R&D.png\<close> the platform reads the
  \<open>filename\<close> parameter as \<open>R\<close>: after the refusal of the second create the lookup finds
  no match, the call raises, and the attachment keeps the first call's bytes.
\<close>

theorem ampersand_filename_not_replaced:
  "fst (upload_twice demo_cfg (attachment_platform demo_cfg) ''55'' ''R&D.png'' ''first'' ''second''
          ''image/png'' empty_platform)
     = Inl (Exception ''Failed to find existing attachment to update: 200 '')
   \<and> attachments (server_state (snd (upload_twice demo_cfg (attachment_platform demo_cfg) ''55''
          ''R&D.png'' ''first'' ''second'' ''image/png'' empty_platform)))
     = [\<lparr>att_id = ''att1'', att_page = ''55'', att_filename = ''R&D.png'',
         att_bytes = ''first'', att_version = 1\<rparr>]
   \<and> map_of (query_params (url_query (url (att_request demo_cfg ''55'' ''R&D.png'')))) ''filename''
     = Some ''R''"
  by code_simp

section \<open>The batch loop\<close>











text \<open>
  When the directory exists, both parent pages are written without an exception and the
  directory lists a supported file, \<open>upload_ils_directory\<close> runs the loop over the supported
  files and returns normally after it.
\<close>

lemma upload_ils_directory_runs_loop:
  assumes "os_path_exists os directory_path"
    and "new_page cfg srv section_parent_title section_content (PARENT_PAGE_TITLE cfg)
           (print (''Ensuring section parent '' @ sq section_parent_title @ '' exists...'')
              (banner cfg directory_path directory_page_title section_parent_title w))
         = (Inr u1, w1)"
    and "new_page cfg srv directory_page_title
           (container_content (os_path_basename os directory_path)) (Some section_parent_title)
           (print (''Creating directory page '' @ sq directory_page_title @ '' under ''
                   @ sq section_parent_title @ ''...'') w1)
         = (Inr u2, w2)"
    and "os_listdir os directory_path = Inr names"
    and "filter (\<lambda>f. endswith (lower f) ALL_SUPPORTED_EXTENSIONS) names = files"
    and "files \<noteq> []"
  shows "upload_ils_directory cfg srv os directory_path directory_page_title section_parent_title w
         = (Inr (),
            print ''\<newline>Batch upload complete.''
              (process_files cfg srv os directory_path directory_page_title files
                 (print (''Found '' @ str_nat (length files) @ '' supported files. Processing...'')
                    w2)))"
  using assms by (simp add: upload_ils_directory_def Let_def)

section \<open>What the batch adds to the requests and the lines\<close>
























end
